theory Spec2Isabelle
  imports Complex_Main "HOL-Library.AList"
begin

section \<open>JavaScript values\<close>

text \<open>
  Vendor responses are duck-typed JavaScript objects. They are modelled as JSON-like
  values: numbers are integers (token counts) or NaN, objects are association lists of
  their own properties, in insertion order. Properties inherited from
  \<open>Object.prototype\<close> are not modelled: the keys looked up are field names of
  responses and names of providers, models and rules. A thrown exception is the left
  summand of a result.
\<close>

datatype js =
    JUndefined
  | JNull
  | JBool bool
  | JNum int
  | JNaN
  | JStr string
  | JArr "js list"
  | JObj "(string \<times> js) list"

datatype error =
    TypeError
  | ProviderNotFound "string option"
  | ProviderNotRegistered string
  | AllProvidersFailed
  | VendorError string

text \<open>\<open>!!v\<close>: the values JavaScript treats as true.\<close>

fun truthy :: "js \<Rightarrow> bool" where
  "truthy JUndefined = False"
| "truthy JNull = False"
| "truthy (JBool b) = b"
| "truthy (JNum n) = (n \<noteq> 0)"
| "truthy JNaN = False"
| "truthy (JStr s) = (s \<noteq> [])"
| "truthy (JArr xs) = True"
| "truthy (JObj kvs) = True"

text \<open>\<open>a || b\<close> on values that are already computed.\<close>

definition js_or :: "js \<Rightarrow> js \<Rightarrow> js" where
  "js_or a b = (if truthy a then a else b)"

fun nullish :: "js \<Rightarrow> bool" where
  "nullish JUndefined = True"
| "nullish JNull = True"
| "nullish v = False"

text \<open>
  \<open>v.k\<close>: reading a property of \<open>undefined\<close> or \<open>null\<close> throws a TypeError; a
  property an object does not have, and a named property of a primitive or an array,
  is \<open>undefined\<close>.
\<close>

fun getprop :: "js \<Rightarrow> string \<Rightarrow> error + js" where
  "getprop JUndefined k = Inl TypeError"
| "getprop JNull k = Inl TypeError"
| "getprop (JObj kvs) k = Inr (case map_of kvs k of None \<Rightarrow> JUndefined | Some v \<Rightarrow> v)"
| "getprop v k = Inr JUndefined"

text \<open>\<open>v[0]\<close>: the first element of an array, the first character of a string.\<close>

fun getindex0 :: "js \<Rightarrow> error + js" where
  "getindex0 JUndefined = Inl TypeError"
| "getindex0 JNull = Inl TypeError"
| "getindex0 (JArr xs) = Inr (case xs of [] \<Rightarrow> JUndefined | x # _ \<Rightarrow> x)"
| "getindex0 (JStr s) = Inr (case s of [] \<Rightarrow> JUndefined | c # _ \<Rightarrow> JStr [c])"
| "getindex0 (JObj kvs) = Inr (case map_of kvs ''0'' of None \<Rightarrow> JUndefined | Some v \<Rightarrow> v)"
| "getindex0 v = Inr JUndefined"

text \<open>
  \<open>v?.k\<close>, as the last link of a chain: \<open>undefined\<close> when \<open>v\<close> is \<open>undefined\<close> or
  \<open>null\<close>.
\<close>

definition optprop :: "js \<Rightarrow> string \<Rightarrow> js" where
  "optprop v k = (if nullish v then JUndefined else (case getprop v k of Inl e \<Rightarrow> JUndefined | Inr w \<Rightarrow> w))"

subsection \<open>The addition operator\<close>

definition digit_char :: "nat \<Rightarrow> char" where
  "digit_char d = char_of (48 + d)"

fun string_of_nat :: "nat \<Rightarrow> string" where
  "string_of_nat n = (if n < 10 then [digit_char n] else string_of_nat (n div 10) @ [digit_char (n mod 10)])"

definition string_of_int :: "int \<Rightarrow> string" where
  "string_of_int i = (if i < 0 then CHR ''-'' # string_of_nat (nat (- i)) else string_of_nat (nat i))"

fun join_comma :: "string list \<Rightarrow> string" where
  "join_comma [] = []"
| "join_comma [s] = s"
| "join_comma (s # t # ss) = s @ CHR '','' # join_comma (t # ss)"

text \<open>
  \<open>String(v)\<close>: an array joins its elements with commas, \<open>undefined\<close> and \<open>null\<close>
  elements as empty strings; a plain object is \<open>[object Object]\<close>.
\<close>

fun js_to_string :: "js \<Rightarrow> string" where
  "js_to_string JUndefined = ''undefined''"
| "js_to_string JNull = ''null''"
| "js_to_string (JBool b) = (if b then ''true'' else ''false'')"
| "js_to_string (JNum n) = string_of_int n"
| "js_to_string JNaN = ''NaN''"
| "js_to_string (JStr s) = s"
| "js_to_string (JArr xs) = join_comma (map (\<lambda>x. if nullish x then [] else js_to_string x) xs)"
| "js_to_string (JObj kvs) = ''[object Object]''"

fun to_primitive :: "js \<Rightarrow> js" where
  "to_primitive (JArr xs) = JStr (js_to_string (JArr xs))"
| "to_primitive (JObj kvs) = JStr (js_to_string (JObj kvs))"
| "to_primitive v = v"

fun is_string :: "js \<Rightarrow> bool" where
  "is_string (JStr s) = True"
| "is_string v = False"

text \<open>\<open>Number(v)\<close> of a primitive that is not a string: \<open>None\<close> is NaN.\<close>

fun to_number :: "js \<Rightarrow> int option" where
  "to_number JNull = Some 0"
| "to_number (JBool b) = Some (if b then 1 else 0)"
| "to_number (JNum n) = Some n"
| "to_number v = None"

definition js_add :: "js \<Rightarrow> js \<Rightarrow> js" where
  "js_add a b =
     (let pa = to_primitive a; pb = to_primitive b in
      if is_string pa \<or> is_string pb then JStr (js_to_string pa @ js_to_string pb)
      else (case (to_number pa, to_number pb) of
              (Some m, Some n) \<Rightarrow> JNum (m + n)
            | _ \<Rightarrow> JNaN))"

section \<open>The uniform request and response\<close>

record message =
  role :: string
  content :: string

record request =
  messages :: "message list"
  systemPrompt :: "string option"
  model :: "string option"
  temperature :: "rat option"
  maxTokens :: "int option"
  stream :: "bool option"
  metadata :: js

text \<open>
  What \<open>normalizeRequest\<close> hands to an adapter. \<open>system\<close> and \<open>model\<close> are set only
  on some branches; a field never assigned is \<open>None\<close>.
\<close>

record normalized_request =
  n_messages :: "message list"
  n_temperature :: rat
  n_maxTokens :: int
  n_stream :: bool
  n_system :: "string option"
  n_model :: "string option"

record 'n usage =
  inputTokens :: 'n
  outputTokens :: 'n
  totalTokens :: 'n

record response =
  r_content :: js
  r_model :: js
  r_provider :: string
  r_usage :: "js usage"
  finishReason :: js


text \<open>\<open>s || d\<close> for an optional string: the default when absent or empty.\<close>

definition str_or :: "string option \<Rightarrow> string \<Rightarrow> string" where
  "str_or s d = (case s of None \<Rightarrow> d | Some v \<Rightarrow> if v = [] then d else v)"

section \<open>Provider adapters\<close>

text \<open>
  The vendor SDKs are outside the repository. A client is the object an SDK constructor
  returns; what the adapters read of it is the key it was constructed with.
\<close>

record sdk_client =
  apiKey :: "string option"

record adapter =
  name :: string
  version :: string
  client :: sdk_client
  supportedModels :: "string list"

text \<open>
  A registered provider is an adapter with its \<open>complete\<close> method. The vendor behind
  the method is not part of the program: the method is a parameter, a function of the
  number of adapter calls made so far in the top-level call and of the request, which
  returns the vendor's response or throws.
\<close>

record provider = adapter +
  adapter_complete :: "nat \<Rightarrow> normalized_request \<Rightarrow> error + js"

record adapter_config =
  cfg_apiKey :: "string option"

definition AnthropicProvider :: "adapter_config \<Rightarrow> adapter" where
  "AnthropicProvider config =
     \<lparr>name = ''anthropic'', version = ''1.0'',
      client = \<lparr>apiKey = cfg_apiKey config\<rparr>,
      supportedModels = [''claude-opus-4'', ''claude-sonnet-4'', ''claude-haiku-4'']\<rparr>"

definition OpenAIProvider :: "adapter_config \<Rightarrow> adapter" where
  "OpenAIProvider config =
     \<lparr>name = ''openai'', version = ''1.0'',
      client = \<lparr>apiKey = cfg_apiKey config\<rparr>,
      supportedModels = [''gpt-4-turbo'', ''gpt-4'', ''gpt-3.5-turbo'']\<rparr>"

definition GoogleProvider :: "adapter_config \<Rightarrow> adapter" where
  "GoogleProvider config =
     \<lparr>name = ''google'', version = ''1.0'',
      client = \<lparr>apiKey = cfg_apiKey config\<rparr>,
      supportedModels = [''gemini-pro'', ''gemini-ultra'']\<rparr>"

text \<open>\<open>!!s\<close> for an optional string: present and not empty.\<close>

definition truthy_str :: "string option \<Rightarrow> bool" where
  "truthy_str s = (case s of None \<Rightarrow> False | Some v \<Rightarrow> v \<noteq> [])"

text \<open>
  \<open>isAvailable\<close> of the Anthropic and OpenAI adapters is \<open>!!this.client.apiKey\<close>;
  of the Google adapter it is \<open>!!this.client\<close>, and a constructed client is an
  object, which is true whatever it holds.
\<close>

definition AnthropicProvider_isAvailable :: "adapter \<Rightarrow> bool" where
  "AnthropicProvider_isAvailable a = truthy_str (apiKey (client a))"

definition OpenAIProvider_isAvailable :: "adapter \<Rightarrow> bool" where
  "OpenAIProvider_isAvailable a = truthy_str (apiKey (client a))"

definition truthy_client :: "sdk_client \<Rightarrow> bool" where
  "truthy_client c = True"

definition GoogleProvider_isAvailable :: "adapter \<Rightarrow> bool" where
  "GoogleProvider_isAvailable a = truthy_client (client a)"

subsection \<open>The calls the adapters make\<close>

record anthropic_call =
  a_model :: string
  a_max_tokens :: int
  a_system :: "string option"
  a_messages :: "message list"
  a_temperature :: rat

record openai_call =
  o_model :: string
  o_max_tokens :: int
  o_messages :: "message list"
  o_temperature :: rat

text \<open>
  \<open>complete\<close> of the Anthropic and OpenAI adapters builds the parameters and calls the
  SDK, the parameter \<open>create\<close>.
\<close>

definition AnthropicProvider_complete ::
  "(nat \<Rightarrow> anthropic_call \<Rightarrow> error + js) \<Rightarrow> nat \<Rightarrow> normalized_request \<Rightarrow> error + js" where
  "AnthropicProvider_complete create clock req =
     create clock
       \<lparr>a_model = str_or (n_model req) ''claude-sonnet-4'',
        a_max_tokens = (if n_maxTokens req = 0 then 4096 else n_maxTokens req),
        a_system = n_system req,
        a_messages = n_messages req,
        a_temperature = n_temperature req\<rparr>"

definition OpenAIProvider_complete ::
  "(nat \<Rightarrow> openai_call \<Rightarrow> error + js) \<Rightarrow> nat \<Rightarrow> normalized_request \<Rightarrow> error + js" where
  "OpenAIProvider_complete create clock req =
     create clock
       \<lparr>o_model = str_or (n_model req) ''gpt-4'',
        o_max_tokens = (if n_maxTokens req = 0 then 4096 else n_maxTokens req),
        o_messages = n_messages req,
        o_temperature = n_temperature req\<rparr>"


record google_turn =
  g_role :: string
  parts :: "string list"

record google_call =
  g_model :: string
  history :: "google_turn list"
  maxOutputTokens :: int
  g_temperature :: rat
  sent :: string

definition convertMessages :: "message list \<Rightarrow> google_turn list" where
  "convertMessages msgs =
     map (\<lambda>msg. \<lparr>g_role = (if role msg = ''assistant'' then ''model'' else ''user''),
                  parts = [content msg]\<rparr>) msgs"

text \<open>
  \<open>GoogleProvider.complete\<close>: the history is every message but the last, the last
  one is sent. With no message at all, reading \<open>lastMessage.content\<close> throws. The
  chat session is the parameter \<open>chat\<close>.
\<close>

definition GoogleProvider_complete ::
  "(nat \<Rightarrow> google_call \<Rightarrow> error + js) \<Rightarrow> nat \<Rightarrow> normalized_request \<Rightarrow> error + js" where
  "GoogleProvider_complete chat clock req =
     (case n_messages req of
        [] \<Rightarrow> Inl TypeError
      | m # ms \<Rightarrow>
          chat clock
            \<lparr>g_model = str_or (n_model req) ''gemini-pro'',
             history = convertMessages (butlast (n_messages req)),
             maxOutputTokens = (if n_maxTokens req = 0 then 4096 else n_maxTokens req),
             g_temperature = n_temperature req,
             sent = content (last (n_messages req))\<rparr>)"

section \<open>UniversalProvider: the normalizer\<close>

definition roleMap :: "(string \<times> (string \<times> string) list) list" where
  "roleMap =
     [(''anthropic'', [(''user'', ''user''), (''assistant'', ''assistant''), (''system'', ''system'')]),
      (''openai'', [(''user'', ''user''), (''assistant'', ''assistant''), (''system'', ''system'')]),
      (''google'', [(''user'', ''user''), (''assistant'', ''model''), (''system'', ''user'')])]"

definition normalizeRole :: "string \<Rightarrow> 'a adapter_scheme \<Rightarrow> string" where
  "normalizeRole r p =
     (case map_of roleMap (name p) of
        None \<Rightarrow> r
      | Some m \<Rightarrow> str_or (map_of m r) r)"

definition normalizeMessages :: "message list \<Rightarrow> 'a adapter_scheme \<Rightarrow> message list" where
  "normalizeMessages msgs p =
     map (\<lambda>msg. \<lparr>role = normalizeRole (role msg) p, content = content msg\<rparr>) msgs"

definition normalizeRequest :: "request \<Rightarrow> 'a adapter_scheme \<Rightarrow> normalized_request" where
  "normalizeRequest req p =
     (let normalized =
        \<lparr>n_messages = normalizeMessages (messages req) p,
         n_temperature = (case temperature req of None \<Rightarrow> 7 / 10 | Some t \<Rightarrow> t),
         n_maxTokens = (case maxTokens req of None \<Rightarrow> 4096 | Some n \<Rightarrow> n),
         n_stream = (case stream req of None \<Rightarrow> False | Some b \<Rightarrow> b),
         n_system = None,
         n_model = None\<rparr>
      in
      if name p = ''anthropic'' then
        normalized\<lparr>n_system := systemPrompt req,
                   n_model := Some (str_or (model req) ''claude-sonnet-4'')\<rparr>
      else if name p = ''openai'' then
        (let n1 = normalized\<lparr>n_model := Some (str_or (model req) ''gpt-4'')\<rparr> in
         case systemPrompt req of
           None \<Rightarrow> n1
         | Some sp \<Rightarrow>
             if sp = [] then n1
             else n1\<lparr>n_messages := \<lparr>role = ''system'', content = sp\<rparr> # n_messages n1\<rparr>)
      else if name p = ''google'' then
        normalized\<lparr>n_model := Some (str_or (model req) ''gemini-pro'')\<rparr>
      else normalized)"

text \<open>Sequencing of steps that may throw.\<close>

definition bind :: "error + 'a \<Rightarrow> ('a \<Rightarrow> error + 'b) \<Rightarrow> error + 'b" where
  "bind m f = (case m of Inl e \<Rightarrow> Inl e | Inr v \<Rightarrow> f v)"

definition extractContent :: "js \<Rightarrow> 'a adapter_scheme \<Rightarrow> error + js" where
  "extractContent resp p =
     (if name p = ''anthropic'' then
        bind (getprop resp ''content'') (\<lambda>c.
        bind (getindex0 c) (\<lambda>b.
        Inr (js_or (optprop b ''text'') (JStr []))))
      else if name p = ''openai'' then
        bind (getprop resp ''choices'') (\<lambda>c.
        bind (getindex0 c) (\<lambda>b.
        Inr (js_or (optprop (optprop b ''message'') ''content'') (JStr []))))
      else if name p = ''google'' then
        bind (getprop resp ''candidates'') (\<lambda>c.
        bind (getindex0 c) (\<lambda>b.
        let ct = optprop b ''content'' in
        if nullish ct then Inr (JStr [])
        else
          bind (getprop ct ''parts'') (\<lambda>ps.
          bind (getindex0 ps) (\<lambda>part.
          Inr (js_or (optprop part ''text'') (JStr []))))))
      else
        bind (getprop resp ''content'') (\<lambda>c.
        if truthy c then Inr c
        else bind (getprop resp ''text'') (\<lambda>t. Inr (js_or t (JStr [])))))"

definition extractInputTokens :: "js \<Rightarrow> 'a adapter_scheme \<Rightarrow> error + js" where
  "extractInputTokens resp p =
     (if name p = ''anthropic'' then
        bind (getprop resp ''usage'') (\<lambda>u. Inr (js_or (optprop u ''input_tokens'') (JNum 0)))
      else if name p = ''openai'' then
        bind (getprop resp ''usage'') (\<lambda>u. Inr (js_or (optprop u ''prompt_tokens'') (JNum 0)))
      else if name p = ''google'' then
        bind (getprop resp ''usageMetadata'') (\<lambda>u. Inr (js_or (optprop u ''promptTokenCount'') (JNum 0)))
      else Inr (JNum 0))"

definition extractOutputTokens :: "js \<Rightarrow> 'a adapter_scheme \<Rightarrow> error + js" where
  "extractOutputTokens resp p =
     (if name p = ''anthropic'' then
        bind (getprop resp ''usage'') (\<lambda>u. Inr (js_or (optprop u ''output_tokens'') (JNum 0)))
      else if name p = ''openai'' then
        bind (getprop resp ''usage'') (\<lambda>u. Inr (js_or (optprop u ''completion_tokens'') (JNum 0)))
      else if name p = ''google'' then
        bind (getprop resp ''usageMetadata'') (\<lambda>u. Inr (js_or (optprop u ''candidatesTokenCount'') (JNum 0)))
      else Inr (JNum 0))"

definition extractTotalTokens :: "js \<Rightarrow> 'a adapter_scheme \<Rightarrow> error + js" where
  "extractTotalTokens resp p =
     bind (extractInputTokens resp p) (\<lambda>i.
     bind (extractOutputTokens resp p) (\<lambda>out.
     Inr (js_add i out)))"

definition extractFinishReason :: "js \<Rightarrow> 'a adapter_scheme \<Rightarrow> error + js" where
  "extractFinishReason resp p =
     (if name p = ''anthropic'' then getprop resp ''stop_reason''
      else if name p = ''openai'' then
        bind (getprop resp ''choices'') (\<lambda>c.
        bind (getindex0 c) (\<lambda>b. Inr (optprop b ''finish_reason'')))
      else if name p = ''google'' then
        bind (getprop resp ''candidates'') (\<lambda>c.
        bind (getindex0 c) (\<lambda>b. Inr (optprop b ''finishReason'')))
      else Inr (JStr ''unknown''))"

text \<open>
  The object literal of \<open>normalizeResponse\<close> evaluates its fields in source order;
  the first one to throw ends the call.
\<close>

definition normalizeResponse :: "js \<Rightarrow> 'a adapter_scheme \<Rightarrow> error + response" where
  "normalizeResponse resp p =
     bind (extractContent resp p) (\<lambda>c.
     bind (getprop resp ''model'') (\<lambda>m.
     bind (extractInputTokens resp p) (\<lambda>i.
     bind (extractOutputTokens resp p) (\<lambda>out.
     bind (extractTotalTokens resp p) (\<lambda>t.
     bind (extractFinishReason resp p) (\<lambda>f.
     Inr \<lparr>r_content = c, r_model = m, r_provider = name p,
          r_usage = \<lparr>inputTokens = i, outputTokens = out, totalTokens = t\<rparr>,
          finishReason = f\<rparr>))))))"

section \<open>UniversalProvider: registry, completion and fallback\<close>

text \<open>
  \<open>providers\<close> is a JavaScript \<open>Map\<close>: keys are unique and iterate in insertion
  order, and \<open>set\<close> on a key already present replaces its value in place.
\<close>

record universal =
  providers :: "(string \<times> provider) list"
  defaultProvider :: "string option"

definition UniversalProvider :: universal where
  "UniversalProvider = \<lparr>providers = [], defaultProvider = None\<rparr>"

definition register :: "string \<Rightarrow> provider \<Rightarrow> universal \<Rightarrow> universal" where
  "register n p u =
     \<lparr>providers = AList.update n p (providers u),
      defaultProvider = (if truthy_str (defaultProvider u) then defaultProvider u else Some n)\<rparr>"

definition getProvider :: "universal \<Rightarrow> string option \<Rightarrow> error + provider" where
  "getProvider u n =
     (case n of
        None \<Rightarrow> Inl (ProviderNotFound None)
      | Some k \<Rightarrow>
          (case map_of (providers u) k of
             None \<Rightarrow> Inl (ProviderNotFound (Some k))
           | Some p \<Rightarrow> Inr p))"

definition setDefaultProvider :: "universal \<Rightarrow> string \<Rightarrow> error + universal" where
  "setDefaultProvider u n =
     (if map_of (providers u) n = None then Inl (ProviderNotRegistered n)
      else Inr (u\<lparr>defaultProvider := Some n\<rparr>))"

record options =
  provider :: "string option"
  enableFallback :: "bool option"

text \<open>
  Each call of an adapter's \<open>complete\<close> is logged: the key the provider was looked up
  under, and whether the call of \<open>UniversalProvider.complete\<close> that made it had
  fallback enabled (\<open>options.enableFallback !== false\<close>). The log is the only state
  a completion changes; its length is the clock the adapters see. Where an entry is
  written, \<open>getProvider\<close> has found the provider, so the name is a string.
\<close>

record attempt =
  key :: string
  with_fallback :: bool

text \<open>
  The body of the \<open>try\<close> block of \<open>complete\<close>: normalize the request, call the
  adapter, normalize its response. Whichever step throws, the \<open>catch\<close> receives it.
\<close>

definition try_body :: "provider \<Rightarrow> request \<Rightarrow> nat \<Rightarrow> error + response" where
  "try_body p req clock =
     (let normalizedRequest = normalizeRequest req p in
      bind (adapter_complete p clock normalizedRequest) (\<lambda>resp. normalizeResponse resp p))"

function complete :: "universal \<Rightarrow> request \<Rightarrow> options \<Rightarrow> attempt list \<Rightarrow> (error + response) \<times> attempt list"
  and tryFallback :: "universal \<Rightarrow> request \<Rightarrow> string option \<Rightarrow> options \<Rightarrow> attempt list \<Rightarrow> (error + response) \<times> attempt list"
  and tryFallback_loop :: "universal \<Rightarrow> request \<Rightarrow> options \<Rightarrow> string list \<Rightarrow> attempt list \<Rightarrow> (error + response) \<times> attempt list"
where
  "complete u req opts tr =
     (let providerName = (if truthy_str (provider opts) then provider opts else defaultProvider u) in
      case getProvider u providerName of
        Inl e \<Rightarrow> (Inl e, tr)
      | Inr p \<Rightarrow>
          (let tr1 = tr @ [\<lparr>key = the providerName, with_fallback = (enableFallback opts \<noteq> Some False)\<rparr>]
           in
           case try_body p req (length tr) of
             Inr r \<Rightarrow> (Inr r, tr1)
           | Inl e \<Rightarrow>
               if enableFallback opts \<noteq> Some False then tryFallback u req providerName opts tr1
               else (Inl e, tr1)))"
| "tryFallback u req failedProvider opts tr =
     (let allProviders = map fst (providers u);
          fallbackOrder = filter (\<lambda>p. Some p \<noteq> failedProvider) allProviders
      in tryFallback_loop u req opts fallbackOrder tr)"
| "tryFallback_loop u req opts [] tr = (Inl AllProvidersFailed, tr)"
| "tryFallback_loop u req opts (providerName # rest) tr =
     (case complete u req (opts\<lparr>provider := Some providerName, enableFallback := Some False\<rparr>) tr of
        (Inr r, tr') \<Rightarrow> (Inr r, tr')
      | (Inl e, tr') \<Rightarrow> tryFallback_loop u req opts rest tr')"
  by pat_completeness auto
termination
  by (relation "measure (\<lambda>x. case x of
         Inl (u, req, opts, tr) \<Rightarrow> (if enableFallback opts = Some False then 0 else 3 + length (providers u))
       | Inr (Inl (u, req, failed, opts, tr)) \<Rightarrow> 2 + length (providers u)
       | Inr (Inr (u, req, opts, ns, tr)) \<Rightarrow> 1 + length ns)")
     (auto simp: less_Suc_eq_le)

subsection \<open>initializeProviders\<close>

text \<open>The three SDKs the adapters call.\<close>

record sdks =
  messages_create :: "nat \<Rightarrow> anthropic_call \<Rightarrow> error + js"
  chat_completions_create :: "nat \<Rightarrow> openai_call \<Rightarrow> error + js"
  chat_sendMessage :: "nat \<Rightarrow> google_call \<Rightarrow> error + js"

text \<open>The process environment, as far as the program reads it.\<close>

record env =
  REACT_APP_ANTHROPIC_API_KEY :: "string option"
  REACT_APP_OPENAI_API_KEY :: "string option"
  REACT_APP_GOOGLE_API_KEY :: "string option"
  REACT_APP_DEFAULT_PROVIDER :: "string option"

text \<open>
  An adapter is registered only when its key is set. \<open>setDefaultProvider\<close> throws
  when the default name is not registered; the exception is caught and the default
  stays what \<open>register\<close> made it, the first provider registered.
\<close>

definition initializeProviders :: "env \<Rightarrow> sdks \<Rightarrow> universal" where
  "initializeProviders e s =
     (let universal0 = UniversalProvider;
          anthropicKey = REACT_APP_ANTHROPIC_API_KEY e;
          universal1 =
            (if truthy_str anthropicKey
             then register ''anthropic''
                    (adapter.extend (AnthropicProvider \<lparr>cfg_apiKey = anthropicKey\<rparr>)
                       (provider.fields (AnthropicProvider_complete (messages_create s))))
                    universal0
             else universal0);
          openaiKey = REACT_APP_OPENAI_API_KEY e;
          universal2 =
            (if truthy_str openaiKey
             then register ''openai''
                    (adapter.extend (OpenAIProvider \<lparr>cfg_apiKey = openaiKey\<rparr>)
                       (provider.fields (OpenAIProvider_complete (chat_completions_create s))))
                    universal1
             else universal1);
          googleKey = REACT_APP_GOOGLE_API_KEY e;
          universal3 =
            (if truthy_str googleKey
             then register ''google''
                    (adapter.extend (GoogleProvider \<lparr>cfg_apiKey = googleKey\<rparr>)
                       (provider.fields (GoogleProvider_complete (chat_sendMessage s))))
                    universal2
             else universal2);
          defaultName = str_or (REACT_APP_DEFAULT_PROVIDER e) ''anthropic''
      in case setDefaultProvider universal3 defaultName of
           Inl err \<Rightarrow> universal3
         | Inr universal4 \<Rightarrow> universal4)"

section \<open>ProviderManager\<close>

subsection \<open>Configuration and construction\<close>

record provider_config =
  enabled :: bool
  defaultModel :: "string option"
  endpoint :: "string option"

record providers_config =
  anthropic :: "provider_config option"
  openai :: "provider_config option"
  google :: "provider_config option"
  local :: "provider_config option"

record fallback_config =
  fb_enabled :: bool
  order :: "string list"

record routing_config =
  strategy :: string
  rules :: "(string \<times> string) list"
  fallback :: fallback_config

record ai_config =
  ai_providers :: providers_config
  routing :: routing_config

record config =
  ai :: ai_config
  monitoring :: js

text \<open>
  What a provider returns to the manager: the documented \<open>CompletionResponse\<close>, of
  which the manager reads \<open>usage\<close>, three numbers.
\<close>

record result =
  usage :: "int usage"
  body :: js

text \<open>
  A provider of the manager: the adapter, with the two methods the manager calls. The
  adapter classes of the repository define no \<open>hasModel\<close>, so calling it
  throws; \<open>complete\<close> is the vendor, a parameter as before.
\<close>

record managed_provider = adapter +
  hasModel :: "string \<Rightarrow> error + bool"
  pm_complete :: "nat \<Rightarrow> request \<Rightarrow> error + result"

text \<open>
  The vendors, by adapter name, and the \<open>LocalProvider\<close> class, which the manager
  imports and the repository does not hold: the object it constructs is a parameter.
\<close>

record world =
  vendor :: "string \<Rightarrow> nat \<Rightarrow> request \<Rightarrow> error + result"
  LocalProvider :: managed_provider

definition manage :: "world \<Rightarrow> adapter \<Rightarrow> managed_provider" where
  "manage w a =
     adapter.extend a
       (managed_provider.fields (\<lambda>m. Inl TypeError) (vendor w (name a)))"

definition is_enabled :: "provider_config option \<Rightarrow> bool" where
  "is_enabled c = (case c of None \<Rightarrow> False | Some pc \<Rightarrow> enabled pc)"

definition ProviderManager_initializeProviders :: "config \<Rightarrow> env \<Rightarrow> world \<Rightarrow> (string \<times> managed_provider) list" where
  "ProviderManager_initializeProviders cfg e w =
     (let providerConfig = ai_providers (ai cfg) in
      (if is_enabled (anthropic providerConfig)
       then [(''anthropic'', manage w (AnthropicProvider \<lparr>cfg_apiKey = REACT_APP_ANTHROPIC_API_KEY e\<rparr>))]
       else []) @
      (if is_enabled (openai providerConfig)
       then [(''openai'', manage w (OpenAIProvider \<lparr>cfg_apiKey = REACT_APP_OPENAI_API_KEY e\<rparr>))]
       else []) @
      (if is_enabled (google providerConfig)
       then [(''google'', manage w (GoogleProvider \<lparr>cfg_apiKey = REACT_APP_GOOGLE_API_KEY e\<rparr>))]
       else []) @
      (if is_enabled (local providerConfig)
       then [(''local'', LocalProvider w)]
       else []))"

record cost_entry =
  tokens :: int
  cost :: rat

text \<open>
  The manager: \<open>providers\<close> is a plain object (own properties in insertion order),
  \<open>costTracker\<close> a \<open>Map\<close>. The process environment is read again at every call of
  \<open>getDefaultProvider\<close>; it is kept with the state.
\<close>

record manager =
  m_config :: config
  m_providers :: "(string \<times> managed_provider) list"
  costTracker :: "(string \<times> cost_entry) list"
  m_env :: env

definition ProviderManager :: "config \<Rightarrow> env \<Rightarrow> world \<Rightarrow> manager" where
  "ProviderManager cfg e w =
     \<lparr>m_config = cfg, m_providers = ProviderManager_initializeProviders cfg e w, costTracker = [], m_env = e\<rparr>"

subsection \<open>Routing\<close>

definition getDefaultProvider :: "manager \<Rightarrow> managed_provider option" where
  "getDefaultProvider pm =
     (let defaultName = str_or (REACT_APP_DEFAULT_PROVIDER (m_env pm)) ''anthropic'' in
      case map_of (m_providers pm) defaultName of
        Some p \<Rightarrow> Some p
      | None \<Rightarrow> (case m_providers pm of [] \<Rightarrow> None | (k, p) # _ \<Rightarrow> Some p))"

text \<open>The loop of \<open>getProviderForModel\<close> over \<open>Object.entries(this.providers)\<close>.\<close>

fun find_model :: "(string \<times> managed_provider) list \<Rightarrow> string \<Rightarrow> error + managed_provider option" where
  "find_model [] modelString = Inr None"
| "find_model ((n, p) # rest) modelString =
     (case hasModel p modelString of
        Inl e \<Rightarrow> Inl e
      | Inr True \<Rightarrow> Inr (Some p)
      | Inr False \<Rightarrow> find_model rest modelString)"

definition getProviderForModel :: "manager \<Rightarrow> string option \<Rightarrow> error + managed_provider option" where
  "getProviderForModel pm modelString =
     (case modelString of
        None \<Rightarrow> Inl TypeError
      | Some ms \<Rightarrow>
          if CHR ''/'' \<in> set ms then
            Inr (map_of (m_providers pm) (takeWhile (\<lambda>c. c \<noteq> CHR ''/'') ms))
          else
            (case find_model (m_providers pm) ms of
               Inl e \<Rightarrow> Inl e
             | Inr (Some p) \<Rightarrow> Inr (Some p)
             | Inr None \<Rightarrow> Inr (getDefaultProvider pm)))"

definition getCheapestProvider :: "manager \<Rightarrow> managed_provider option" where
  "getCheapestProvider pm =
     (case map_of (m_providers pm) ''local'' of
        Some p \<Rightarrow> Some p
      | None \<Rightarrow>
     (case map_of (m_providers pm) ''anthropic'' of
        Some p \<Rightarrow> Some p
      | None \<Rightarrow>
     (case map_of (m_providers pm) ''openai'' of
        Some p \<Rightarrow> Some p
      | None \<Rightarrow> getDefaultProvider pm)))"

definition getFastestProvider :: "manager \<Rightarrow> managed_provider option" where
  "getFastestProvider pm =
     (case map_of (m_providers pm) ''local'' of
        Some p \<Rightarrow> Some p
      | None \<Rightarrow>
     (case map_of (m_providers pm) ''anthropic'' of
        Some p \<Rightarrow> Some p
      | None \<Rightarrow> getDefaultProvider pm))"

definition getBestQualityProvider :: "manager \<Rightarrow> managed_provider option" where
  "getBestQualityProvider pm =
     (case map_of (m_providers pm) ''anthropic'' of
        Some p \<Rightarrow> Some p
      | None \<Rightarrow>
     (case map_of (m_providers pm) ''openai'' of
        Some p \<Rightarrow> Some p
      | None \<Rightarrow> getDefaultProvider pm))"

text \<open>
  \<open>selectProvider\<close>: \<open>None\<close> is \<open>undefined\<close>, the value of a lookup of a name that
  is not registered.
\<close>

definition selectProvider :: "manager \<Rightarrow> request \<Rightarrow> options \<Rightarrow> error + managed_provider option" where
  "selectProvider pm req opts =
     (if truthy_str (provider opts) then Inr (map_of (m_providers pm) (the (provider opts)))
      else
        (let strat = strategy (routing (ai (m_config pm)));
             rls = rules (routing (ai (m_config pm)))
         in
         if optprop (metadata req) ''complexity'' = JStr ''simple'' then
           getProviderForModel pm (map_of rls ''simple-queries'')
         else if optprop (metadata req) ''complexity'' = JStr ''complex'' then
           getProviderForModel pm (map_of rls ''complex-reasoning'')
         else if optprop (metadata req) ''useCase'' = JStr ''embeddings'' then
           getProviderForModel pm (map_of rls ''embeddings'')
         else if strat = ''cost-optimized'' then Inr (getCheapestProvider pm)
         else if strat = ''latency-optimized'' then Inr (getFastestProvider pm)
         else if strat = ''quality-optimized'' then Inr (getBestQualityProvider pm)
         else Inr (getDefaultProvider pm)))"

subsection \<open>Cost tracking\<close>

record price =
  input_price :: rat
  output_price :: rat

definition local_pricing :: "(string \<times> price) list" where
  "local_pricing = [(''default'', \<lparr>input_price = 0, output_price = 0\<rparr>)]"

definition pricing :: "(string \<times> (string \<times> price) list) list" where
  "pricing =
     [(''anthropic'',
        [(''claude-opus-4'', \<lparr>input_price = 15 / 1000000, output_price = 75 / 1000000\<rparr>),
         (''claude-sonnet-4'', \<lparr>input_price = 3 / 1000000, output_price = 15 / 1000000\<rparr>),
         (''claude-haiku-4'', \<lparr>input_price = 25 / 100000000, output_price = 125 / 100000000\<rparr>)]),
      (''openai'',
        [(''gpt-4'', \<lparr>input_price = 30 / 1000000, output_price = 60 / 1000000\<rparr>),
         (''gpt-4-turbo'', \<lparr>input_price = 10 / 1000000, output_price = 30 / 1000000\<rparr>),
         (''gpt-3.5-turbo'', \<lparr>input_price = 5 / 10000000, output_price = 15 / 10000000\<rparr>)]),
      (''local'', local_pricing)]"

definition providerPricing :: "string \<Rightarrow> (string \<times> price) list" where
  "providerPricing providerName =
     (case map_of pricing providerName of None \<Rightarrow> local_pricing | Some t \<Rightarrow> t)"

text \<open>
  \<open>Object.values(providerPricing)[0]\<close>: the first price of the provider's table.
  Every table has one (\<open>providerPricing_first\<close> below), so \<open>hd\<close> is defined.
\<close>

definition modelPricing :: "string \<Rightarrow> price" where
  "modelPricing providerName = hd (map snd (providerPricing providerName))"

definition calculateCost :: "string \<Rightarrow> int usage \<Rightarrow> rat" where
  "calculateCost providerName u =
     of_int (inputTokens u) * input_price (modelPricing providerName) +
     of_int (outputTokens u) * output_price (modelPricing providerName)"

definition trackCosts :: "config \<Rightarrow> bool" where
  "trackCosts cfg = truthy (optprop (monitoring cfg) ''trackCosts'')"

definition trackCost :: "manager \<Rightarrow> string \<Rightarrow> int usage \<Rightarrow> manager" where
  "trackCost pm providerName u =
     (if \<not> trackCosts (m_config pm) then pm
      else
        (let current = (case map_of (costTracker pm) providerName of
                          None \<Rightarrow> \<lparr>tokens = 0, cost = 0\<rparr>
                        | Some c \<Rightarrow> c);
             current1 = current\<lparr>tokens := tokens current + totalTokens u\<rparr>;
             current2 = current1\<lparr>cost := cost current1 + calculateCost providerName u\<rparr>
         in pm\<lparr>costTracker := AList.update providerName current2 (costTracker pm)\<rparr>))"

subsection \<open>The cost summary\<close>

text \<open>
  \<open>x.toFixed(4)\<close>: the nearest multiple of one ten-thousandth, the larger of two
  equally near, written with four decimals.
\<close>

definition toFixed4 :: "rat \<Rightarrow> string" where
  "toFixed4 x =
     (let n = nat \<lfloor>\<bar>x\<bar> * 10000 + 1 / 2\<rfloor>;
          ds = string_of_nat n;
          padded = replicate (5 - length ds) (CHR ''0'') @ ds
      in (if x < 0 then ''-'' else []) @
         take (length padded - 4) padded @ ''.'' @ drop (length padded - 4) padded)"

record summary_entry =
  s_tokens :: int
  s_cost :: string
  currency :: string

definition getCostSummary :: "manager \<Rightarrow> (string \<times> summary_entry) list" where
  "getCostSummary pm =
     map (\<lambda>(p, data). (p, \<lparr>s_tokens = tokens data, s_cost = toFixed4 (cost data), currency = ''USD''\<rparr>))
       (costTracker pm)"

subsection \<open>Completion and fallback\<close>

text \<open>
  The manager logs the \<open>name\<close> of each adapter whose \<open>complete\<close> it calls. The loop
  of \<open>tryFallback\<close> runs over the configured order.
\<close>

fun tryFallback_order ::
  "manager \<Rightarrow> request \<Rightarrow> string \<Rightarrow> string list \<Rightarrow> string list \<Rightarrow> (error + result) \<times> manager \<times> string list" where
  "tryFallback_order pm req failedProvider [] tr = (Inl AllProvidersFailed, pm, tr)"
| "tryFallback_order pm req failedProvider (providerName # rest) tr =
     (if providerName = failedProvider then tryFallback_order pm req failedProvider rest tr
      else
        (case map_of (m_providers pm) providerName of
           None \<Rightarrow> tryFallback_order pm req failedProvider rest tr
         | Some p \<Rightarrow>
             (case pm_complete p (length tr) req of
                Inr res \<Rightarrow> (Inr res, trackCost pm providerName (usage res), tr @ [name p])
              | Inl e \<Rightarrow> tryFallback_order pm req failedProvider rest (tr @ [name p]))))"

definition ProviderManager_tryFallback ::
  "manager \<Rightarrow> request \<Rightarrow> string \<Rightarrow> string list \<Rightarrow> (error + result) \<times> manager \<times> string list" where
  "ProviderManager_tryFallback pm req failedProvider tr =
     (let fallbackOrder = order (fallback (routing (ai (m_config pm))))
      in tryFallback_order pm req failedProvider fallbackOrder tr)"

text \<open>
  \<open>ProviderManager.complete\<close>. When the selection is \<open>undefined\<close>, calling
  \<open>provider.complete\<close> throws inside the \<open>try\<close>, and the \<open>catch\<close> block throws
  again on \<open>provider.name\<close>, before it reaches the fallback.
\<close>

definition ProviderManager_complete ::
  "manager \<Rightarrow> request \<Rightarrow> options \<Rightarrow> string list \<Rightarrow> (error + result) \<times> manager \<times> string list" where
  "ProviderManager_complete pm req opts tr =
     (case selectProvider pm req opts of
        Inl e \<Rightarrow> (Inl e, pm, tr)
      | Inr None \<Rightarrow> (Inl TypeError, pm, tr)
      | Inr (Some p) \<Rightarrow>
          (case pm_complete p (length tr) req of
             Inr res \<Rightarrow> (Inr res, trackCost pm (name p) (usage res), tr @ [name p])
           | Inl e \<Rightarrow>
               if fb_enabled (fallback (routing (ai (m_config pm))))
               then ProviderManager_tryFallback pm req (name p) (tr @ [name p])
               else (Inl e, pm, tr @ [name p])))"

section \<open>Inputs the properties are stated on\<close>

text \<open>
  The configuration the setup script of the repository writes
  (\<open>antigravity.config.json\<close>): Anthropic enabled, OpenAI and the local provider
  disabled, cost-optimized routing, fallback over \<open>anthropic, openai, local\<close>, and no
  \<open>monitoring\<close> key.
\<close>

definition sample_config :: config where
  "sample_config =
     \<lparr>ai =
        \<lparr>ai_providers =
           \<lparr>anthropic = Some \<lparr>enabled = True, defaultModel = Some ''claude-sonnet-4'', endpoint = None\<rparr>,
            openai = Some \<lparr>enabled = False, defaultModel = Some ''gpt-4'', endpoint = None\<rparr>,
            google = None,
            local = Some \<lparr>enabled = False, defaultModel = Some ''llama2'',
                         endpoint = Some ''http://localhost:11434''\<rparr>\<rparr>,
         routing =
           \<lparr>strategy = ''cost-optimized'',
            rules = [(''simple-queries'', ''claude-haiku-4''),
                     (''complex-reasoning'', ''claude-opus-4''),
                     (''general'', ''claude-sonnet-4'')],
            fallback = \<lparr>fb_enabled = True, order = [''anthropic'', ''openai'', ''local'']\<rparr>\<rparr>\<rparr>,
      monitoring = JUndefined\<rparr>"

text \<open>
  The finish reasons of the documented \<open>CompletionResponse\<close> type
  (\<open>'complete'|'length'|'tool_use'|'error'\<close>) and \<open>'unknown'\<close>, the value of the
  default branch of \<open>extractFinishReason\<close>.
\<close>

definition finish_reasons :: "js list" where
  "finish_reasons =
     [JStr ''complete'', JStr ''length'', JStr ''tool_use'', JStr ''error'', JStr ''unknown'']"

text \<open>
  Responses of the three vendors, as the paths of the normalizer read them: a text, the
  token counts \<open>i\<close> and \<open>out\<close>, and a total \<open>t\<close> reported by the vendor.
\<close>

definition anthropic_response :: "string \<Rightarrow> js \<Rightarrow> js \<Rightarrow> int \<Rightarrow> int \<Rightarrow> js \<Rightarrow> js" where
  "anthropic_response txt m stop i out t =
     JObj [(''content'', JArr [JObj [(''type'', JStr ''text''), (''text'', JStr txt)]]),
           (''model'', m),
           (''stop_reason'', stop),
           (''usage'', JObj [(''input_tokens'', JNum i), (''output_tokens'', JNum out),
                            (''total_tokens'', t)])]"

definition openai_response :: "string \<Rightarrow> js \<Rightarrow> js \<Rightarrow> int \<Rightarrow> int \<Rightarrow> js \<Rightarrow> js" where
  "openai_response txt m stop i out t =
     JObj [(''choices'',
             JArr [JObj [(''message'', JObj [(''role'', JStr ''assistant''), (''content'', JStr txt)]),
                         (''finish_reason'', stop)]]),
           (''model'', m),
           (''usage'', JObj [(''prompt_tokens'', JNum i), (''completion_tokens'', JNum out),
                            (''total_tokens'', t)])]"

definition google_response :: "string \<Rightarrow> js \<Rightarrow> js \<Rightarrow> int \<Rightarrow> int \<Rightarrow> js \<Rightarrow> js" where
  "google_response txt m stop i out t =
     JObj [(''candidates'',
             JArr [JObj [(''content'', JObj [(''role'', JStr ''model''),
                                            (''parts'', JArr [JObj [(''text'', JStr txt)]])]),
                         (''finishReason'', stop)]]),
           (''model'', m),
           (''usageMetadata'', JObj [(''promptTokenCount'', JNum i), (''candidatesTokenCount'', JNum out),
                                    (''totalTokenCount'', t)])]"

text \<open>
  Concrete inputs for the examples: a configuration with chosen providers enabled, a
  routing strategy, a fallback order and a \<open>monitoring\<close> value; an environment; a
  request; and vendors that answer for the providers listed and fail for the others.
\<close>

definition example_config :: "bool \<Rightarrow> bool \<Rightarrow> string \<Rightarrow> string list \<Rightarrow> js \<Rightarrow> config" where
  "example_config anthropic_on openai_on strat ord mon =
     \<lparr>ai =
        \<lparr>ai_providers =
           \<lparr>anthropic = Some \<lparr>enabled = anthropic_on, defaultModel = Some ''claude-sonnet-4'', endpoint = None\<rparr>,
            openai = Some \<lparr>enabled = openai_on, defaultModel = Some ''gpt-4'', endpoint = None\<rparr>,
            google = None,
            local = None\<rparr>,
         routing =
           \<lparr>strategy = strat,
            rules = [(''simple-queries'', ''claude-haiku-4''),
                     (''complex-reasoning'', ''claude-opus-4''),
                     (''general'', ''claude-sonnet-4'')],
            fallback = \<lparr>fb_enabled = True, order = ord\<rparr>\<rparr>\<rparr>,
      monitoring = mon\<rparr>"

definition example_env :: "string option \<Rightarrow> string option \<Rightarrow> env" where
  "example_env anthropicKey openaiKey =
     \<lparr>REACT_APP_ANTHROPIC_API_KEY = anthropicKey, REACT_APP_OPENAI_API_KEY = openaiKey,
      REACT_APP_GOOGLE_API_KEY = None, REACT_APP_DEFAULT_PROVIDER = None\<rparr>"

definition hello :: "js \<Rightarrow> request" where
  "hello meta =
     \<lparr>messages = [\<lparr>role = ''user'', content = ''Hello''\<rparr>], systemPrompt = None,
      model = None, temperature = None, maxTokens = None, stream = None, metadata = meta\<rparr>"

definition example_result :: result where
  "example_result =
     \<lparr>usage = \<lparr>inputTokens = 100, outputTokens = 50, totalTokens = 150\<rparr>, body = JStr ''Hi''\<rparr>"

definition vendors_up :: "string list \<Rightarrow> world" where
  "vendors_up up =
     \<lparr>vendor = (\<lambda>n clock req. if n \<in> set up then Inr example_result
                                 else Inl (VendorError ''overloaded'')),
      LocalProvider =
        adapter.extend
          \<lparr>name = ''local'', version = ''1.0'', client = \<lparr>apiKey = None\<rparr>, supportedModels = []\<rparr>
          (managed_provider.fields (\<lambda>m. Inr False)
             (\<lambda>clock req. Inl (VendorError ''connection refused'')))\<rparr>"

definition sdks_up :: "string list \<Rightarrow> sdks" where
  "sdks_up up =
     \<lparr>messages_create = (\<lambda>clock call.
         if ''anthropic'' \<in> set up
         then Inr (anthropic_response ''Hi'' (JStr (a_model call)) (JStr ''end_turn'') 100 50 (JNum 150))
         else Inl (VendorError ''overloaded'')),
      chat_completions_create = (\<lambda>clock call.
         if ''openai'' \<in> set up
         then Inr (openai_response ''Hi'' (JStr (o_model call)) (JStr ''stop'') 100 50 (JNum 150))
         else Inl (VendorError ''overloaded'')),
      chat_sendMessage = (\<lambda>clock call.
         if ''google'' \<in> set up
         then Inr (google_response ''Hi'' JUndefined (JStr ''STOP'') 100 50 (JNum 150))
         else Inl (VendorError ''overloaded''))\<rparr>"

section \<open>Properties of the normalizer\<close>

lemmas normalizer_defs =
  normalizeResponse_def extractContent_def extractInputTokens_def extractOutputTokens_def
  extractTotalTokens_def extractFinishReason_def bind_def optprop_def js_or_def


lemma js_or_count: "js_or (JNum n) (JNum 0) = JNum n"
  by (simp add: js_or_def)

text \<open>
  Whatever the provider and the response, the total of a normalized response is the
  JavaScript sum of its own input and output counts: no other field of the response
  enters it.
\<close>

lemma totalTokens_is_js_add:
  assumes "normalizeResponse resp p = Inr r"
  shows "totalTokens (r_usage r) = js_add (inputTokens (r_usage r)) (outputTokens (r_usage r))"
  using assms
  by (auto simp: normalizeResponse_def extractTotalTokens_def bind_def split: sum.splits)

text \<open>
  The finish reason of a recognized vendor is the vendor's own value, read at the
  vendor's path and returned as it is.
\<close>

lemma extractFinishReason_anthropic:
  "name p = ''anthropic'' \<Longrightarrow> extractFinishReason resp p = getprop resp ''stop_reason''"
  by (simp add: extractFinishReason_def)

lemma extractFinishReason_unrecognized:
  "name p \<notin> {''anthropic'', ''openai'', ''google''} \<Longrightarrow>
   extractFinishReason resp p = Inr (JStr ''unknown'')"
  by (simp add: extractFinishReason_def)

text \<open>
  C1. Claim: every normalized response has a \<open>finishReason\<close> in
  \<open>{complete, length, tool_use, error, unknown}\<close>. The code returns the vendor's value
  unmapped: an Anthropic response that stopped with \<open>end_turn\<close> is normalized to a
  response whose \<open>finishReason\<close> is \<open>end_turn\<close>, which is not in the set.
\<close>

theorem finishReason_not_in_closed_set:
  "\<exists>r. normalizeResponse
          (JObj [(''content'', JArr [JObj [(''type'', JStr ''text''), (''text'', JStr ''Hi'')]]),
                 (''model'', JStr ''claude-sonnet-4''),
                 (''stop_reason'', JStr ''end_turn''),
                 (''usage'', JObj [(''input_tokens'', JNum 10), (''output_tokens'', JNum 5)])])
          (AnthropicProvider \<lparr>cfg_apiKey = Some ''key''\<rparr>) = Inr r
      \<and> finishReason r = JStr ''end_turn''
      \<and> finishReason r \<notin> set finish_reasons"
  by (simp add: normalizer_defs js_add_def AnthropicProvider_def finish_reasons_def)

text \<open>
  For the Google adapter the normalized request does not depend on the system prompt
  at all, while the message roles are mapped as the role table says.
\<close>

lemma normalizeRequest_google_ignores_systemPrompt:
  "name p = ''google'' \<Longrightarrow> normalizeRequest (req\<lparr>systemPrompt := sp\<rparr>) p = normalizeRequest req p"
  by (simp add: normalizeRequest_def)

lemma normalizeRole_google:
  assumes "name p = ''google''"
  shows "normalizeRole ''assistant'' p = ''model''"
    and "normalizeRole ''system'' p = ''user''"
    and "normalizeRole ''user'' p = ''user''"
  using assms by (simp_all add: normalizeRole_def roleMap_def str_or_def)

text \<open>
  No normalized role is \<open>assistant\<close>, and \<open>convertMessages\<close> of the adapter maps
  every role but \<open>assistant\<close> to \<open>user\<close>: in the history the adapter sends after
  normalization, every turn has the role \<open>user\<close>.
\<close>

lemma normalizeRole_google_not_assistant:
  assumes "name p = ''google''"
  shows "normalizeRole r p \<noteq> ''assistant''"
  using assms by (auto simp: normalizeRole_def roleMap_def str_or_def)

lemma google_history_roles:
  assumes "name p = ''google''"
  shows "\<forall>t \<in> set (convertMessages (n_messages (normalizeRequest req p))). g_role t = ''user''"
  using assms
  by (auto simp: normalizeRequest_def normalizeMessages_def convertMessages_def
      normalizeRole_google_not_assistant)

text \<open>
  C4. Claim: for the Google adapter the system prompt is folded into the first turn of
  the outgoing messages, and roles are mapped assistant to model, system to user. The
  roles are mapped so, but the system prompt is dropped: the request with the one user
  message \<open>Hello\<close> and the system prompt \<open>Be concise\<close> is normalized to that one
  message, with no \<open>system\<close> field, and the adapter sends \<open>Hello\<close> with an empty
  history, whatever \<open>chat\<close> answers.
\<close>

theorem google_systemPrompt_dropped:
  "normalizeRequest
     \<lparr>messages = [\<lparr>role = ''user'', content = ''Hello''\<rparr>], systemPrompt = Some ''Be concise'',
      model = None, temperature = None, maxTokens = None, stream = None, metadata = JUndefined\<rparr>
     (GoogleProvider \<lparr>cfg_apiKey = Some ''key''\<rparr>)
   = \<lparr>n_messages = [\<lparr>role = ''user'', content = ''Hello''\<rparr>], n_temperature = 7 / 10,
      n_maxTokens = 4096, n_stream = False, n_system = None, n_model = Some ''gemini-pro''\<rparr>
   \<and> GoogleProvider_complete chat 0
       \<lparr>n_messages = [\<lparr>role = ''user'', content = ''Hello''\<rparr>], n_temperature = 7 / 10,
        n_maxTokens = 4096, n_stream = False, n_system = None, n_model = Some ''gemini-pro''\<rparr>
   = chat 0 \<lparr>g_model = ''gemini-pro'', history = [], maxOutputTokens = 4096,
              g_temperature = 7 / 10, sent = ''Hello''\<rparr>"
  by (simp add: normalizeRequest_def GoogleProvider_def normalizeMessages_def normalizeRole_def
      roleMap_def str_or_def GoogleProvider_complete_def convertMessages_def)



text \<open>
  A response handled by the default branch (a provider that is none of the three
  vendors) never makes the normalizer throw, provided it is a value at all, and its
  content is the empty string when it has neither a \<open>content\<close> nor a \<open>text\<close>.
\<close>

lemma normalizeResponse_unrecognized_returns:
  assumes "name p \<notin> {''anthropic'', ''openai'', ''google''}" and "\<not> nullish resp"
  shows "\<exists>r. normalizeResponse resp p = Inr r"
  using assms by (cases resp) (auto simp: normalizer_defs)

lemma extractContent_unrecognized_empty:
  assumes "name p \<notin> {''anthropic'', ''openai'', ''google''}"
    and "getprop resp ''content'' = Inr JUndefined" and "getprop resp ''text'' = Inr JUndefined"
  shows "extractContent resp p = Inr (JStr [])"
  using assms by (simp add: extractContent_def bind_def js_or_def)

text \<open>
  C6. Claim: response normalization never throws when no text can be extracted, and
  yields the empty string. For the three vendors the first link of the path is read
  without a guard: a Google response that was blocked, and so carries a
  \<open>promptFeedback\<close> and no \<open>candidates\<close>, makes \<open>normalizeResponse\<close> throw a
  TypeError.
\<close>

theorem normalizeResponse_throws_without_candidates:
  "normalizeResponse
     (JObj [(''promptFeedback'', JObj [(''blockReason'', JStr ''SAFETY'')])])
     (GoogleProvider \<lparr>cfg_apiKey = Some ''key''\<rparr>) = Inl TypeError"
  by (simp add: normalizer_defs GoogleProvider_def)

section \<open>Properties of the adapters\<close>

lemma isAvailable_iff_key:
  "AnthropicProvider_isAvailable (AnthropicProvider config) = truthy_str (cfg_apiKey config)"
  "OpenAIProvider_isAvailable (OpenAIProvider config) = truthy_str (cfg_apiKey config)"
  by (simp_all add: AnthropicProvider_isAvailable_def OpenAIProvider_isAvailable_def
      AnthropicProvider_def OpenAIProvider_def)

text \<open>
  C9. Claim: \<open>isAvailable()\<close> is true if and only if a credential is configured. The
  Anthropic and OpenAI adapters test the key of their client; the Google adapter tests
  the client itself, so it reports available when constructed with no key.
\<close>

theorem google_isAvailable_without_key:
  "GoogleProvider_isAvailable (GoogleProvider \<lparr>cfg_apiKey = None\<rparr>) = True"
  by (simp add: GoogleProvider_isAvailable_def truthy_client_def)

section \<open>Properties of the cost tracker\<close>

lemma providerPricing_first: "map snd (providerPricing n) \<noteq> []"
  by (simp add: providerPricing_def pricing_def local_pricing_def)


lemma trackCost_disabled: "\<not> trackCosts (m_config pm) \<Longrightarrow> trackCost pm n u = pm"
  by (simp add: trackCost_def)

lemma tryFallback_order_disabled:
  "\<not> trackCosts (m_config pm) \<Longrightarrow> fst (snd (tryFallback_order pm req failed ns tr)) = pm"
  by (induction ns arbitrary: tr) (auto simp: trackCost_disabled split: option.splits sum.splits)

lemma complete_disabled:
  "\<not> trackCosts (m_config pm) \<Longrightarrow> fst (snd (ProviderManager_complete pm req opts tr)) = pm"
  by (auto simp: ProviderManager_complete_def ProviderManager_tryFallback_def trackCost_disabled
      tryFallback_order_disabled split: option.splits sum.splits)




lemma trackCosts_absent: "monitoring cfg = JUndefined \<Longrightarrow> \<not> trackCosts cfg"
  by (simp add: trackCosts_def optprop_def)

lemmas example_defs =
  example_config_def example_env_def hello_def example_result_def vendors_up_def sdks_up_def
  sample_config_def ProviderManager_def ProviderManager_initializeProviders_def is_enabled_def
  manage_def AnthropicProvider_def OpenAIProvider_def GoogleProvider_def adapter.extend_def
  managed_provider.fields_def provider.fields_def

lemmas routing_defs =
  selectProvider_def getProviderForModel_def getCheapestProvider_def getFastestProvider_def
  getBestQualityProvider_def getDefaultProvider_def truthy_str_def optprop_def str_or_def

text \<open>
  C10. When \<open>config.monitoring?.trackCosts\<close> is falsy, \<open>trackCost\<close> returns the manager
  as it was, so the cost summary is the same before and after, and a call of
  \<open>complete\<close>, whatever its outcome, leaves the manager unchanged. A configuration with
  no \<open>monitoring\<close> key, such as the one the setup script writes, is one such case
  (\<open>trackCosts_absent\<close>).
\<close>

theorem trackCost_disabled_unchanged:
  assumes "\<not> trackCosts (m_config pm)"
  shows "trackCost pm providerName u = pm \<and>
         getCostSummary (trackCost pm providerName u) = getCostSummary pm \<and>
         fst (snd (ProviderManager_complete pm req opts tr)) = pm"
  using assms by (simp add: trackCost_disabled complete_disabled)

theorem trackCost_disabled_unchanged_witness:
  "fst (ProviderManager_complete
          (ProviderManager sample_config (example_env None None) (vendors_up [''anthropic'']))
          (hello JUndefined) \<lparr>provider = None, enableFallback = None\<rparr> []) = Inr example_result \<and>
   fst (snd (ProviderManager_complete
          (ProviderManager sample_config (example_env None None) (vendors_up [''anthropic'']))
          (hello JUndefined) \<lparr>provider = None, enableFallback = None\<rparr> [])) =
     ProviderManager sample_config (example_env None None) (vendors_up [''anthropic'']) \<and>
   getCostSummary
     (trackCost (ProviderManager sample_config (example_env None None) (vendors_up [''anthropic'']))
        ''anthropic'' (usage example_result)) = []"
proof -
  let ?pm = "ProviderManager sample_config (example_env None None) (vendors_up [''anthropic''])"
  have off: "\<not> trackCosts (m_config ?pm)"
    by (rule trackCosts_absent) (simp add: ProviderManager_def sample_config_def)
  have ok: "fst (ProviderManager_complete ?pm (hello JUndefined) \<lparr>provider = None, enableFallback = None\<rparr> [])
      = Inr example_result"
    by (simp add: ProviderManager_complete_def example_defs routing_defs)
  have empty: "getCostSummary ?pm = []"
    by (simp add: getCostSummary_def ProviderManager_def)
  from trackCost_disabled_unchanged[OF off, of "''anthropic''" "usage example_result" "hello JUndefined"
      "\<lparr>provider = None, enableFallback = None\<rparr>" "[]"] ok empty
  show ?thesis by simp
qed



section \<open>Properties of completion and fallback\<close>

subsection \<open>UniversalProvider\<close>

declare complete.simps [simp del] tryFallback.simps [simp del]

lemma complete_no_fallback:
  assumes "enableFallback opts = Some False"
  shows "complete u req opts tr =
     (case getProvider u (if truthy_str (provider opts) then provider opts else defaultProvider u) of
        Inl e \<Rightarrow> (Inl e, tr)
      | Inr p \<Rightarrow> (try_body p req (length tr),
                  tr @ [\<lparr>key = the (if truthy_str (provider opts) then provider opts else defaultProvider u),
                         with_fallback = False\<rparr>]))"
  using assms by (subst complete.simps) (auto simp: Let_def split: sum.splits)






subsection \<open>ProviderManager\<close>

lemma trackCost_providers: "m_providers (trackCost pm n u) = m_providers pm"
  by (simp add: trackCost_def Let_def)



section \<open>Properties of routing\<close>







text \<open>
  The same holds of \<open>UniversalProvider.complete\<close> for a provider registered under a
  name that is not the empty string (\<open>options.provider || this.defaultProvider\<close> reads
  an empty string as no name).
\<close>

lemma complete_explicit_first:
  assumes "map_of (providers u) X = Some p" and "X \<noteq> []" and "provider opts = Some X"
  shows "\<exists>rest. snd (complete u req opts []) =
           \<lparr>key = X, with_fallback = (enableFallback opts \<noteq> Some False)\<rparr> # rest"
proof (cases "try_body p req 0")
  case (Inr r)
  with assms show ?thesis
    by (subst complete.simps) (simp add: truthy_str_def getProvider_def)
next
  case (Inl e)
  show ?thesis
  proof (cases "enableFallback opts = Some False")
    case True
    with Inl assms show ?thesis
      by (subst complete.simps) (simp add: truthy_str_def getProvider_def)
  next
    case False
    let ?first = "\<lparr>key = X, with_fallback = True\<rparr>"
    have pre: "\<exists>rest. tr' = tr0 @ rest"
      if "tryFallback_loop u req opts ns tr0 = (res, tr')" for ns tr0 res tr'
      using that
    proof (induction ns arbitrary: tr0)
      case Nil
      then show ?case by simp
    next
      case (Cons n ns)
      obtain r1 t1 where c: "complete u req (opts\<lparr>provider := Some n, enableFallback := Some False\<rparr>) tr0 = (r1, t1)"
        by (cases "complete u req (opts\<lparr>provider := Some n, enableFallback := Some False\<rparr>) tr0") auto
      have t1: "\<exists>rest. t1 = tr0 @ rest"
        using c by (auto simp: complete_no_fallback split: sum.splits)
      show ?case
      proof (cases r1)
        case (Inr r)
        with Cons.prems c t1 show ?thesis by simp
      next
        case (Inl e)
        with Cons.prems c have "tryFallback_loop u req opts ns t1 = (res, tr')" by simp
        from Cons.IH[OF this] t1 show ?thesis by auto
      qed
    qed
    obtain res tr where run: "tryFallback u req (Some X) opts [?first] = (res, tr)"
      by (cases "tryFallback u req (Some X) opts [?first]") auto
    then have "tryFallback_loop u req opts
        (filter (\<lambda>p. Some p \<noteq> Some X) (map fst (providers u))) [?first] = (res, tr)"
      by (simp add: tryFallback.simps Let_def)
    from pre[OF this] obtain rest where "tr = [?first] @ rest" by blast
    with Inl False assms run show ?thesis
      by (subst complete.simps) (simp add: truthy_str_def getProvider_def)
  qed
qed

section \<open>Properties of the registry\<close>

lemmas universal_defs =
  initializeProviders_def UniversalProvider_def register_def setDefaultProvider_def
  getProvider_def try_body_def AnthropicProvider_complete_def OpenAIProvider_complete_def
  GoogleProvider_complete_def normalizeRequest_def normalizeMessages_def normalizeRole_def
  roleMap_def anthropic_response_def openai_response_def google_response_def

text \<open>
  \<open>register\<close> keeps the keys of the \<open>Map\<close> distinct, and the default provider, once
  set, is a registered name. Every provider of the manager is registered under its own
  name, provided the \<open>LocalProvider\<close> class names its objects \<open>local\<close>.
\<close>

lemma register_distinct:
  "distinct (map fst (providers u)) \<Longrightarrow> distinct (map fst (providers (register n p u)))"
  by (simp add: register_def distinct_update)

lemma register_default_registered:
  assumes "\<forall>d. defaultProvider u = Some d \<and> d \<noteq> [] \<longrightarrow> d \<in> set (map fst (providers u))"
  shows "\<forall>d. defaultProvider (register n p u) = Some d \<longrightarrow> d \<in> set (map fst (providers (register n p u)))"
  using assms by (auto simp: register_def truthy_str_def dom_update split: option.splits)

lemma initializeProviders_keys:
  "distinct (map fst (providers (initializeProviders e s))) \<and>
   set (map fst (providers (initializeProviders e s))) \<subseteq> {''anthropic'', ''openai'', ''google''}"
  by (auto simp: initializeProviders_def Let_def register_def setDefaultProvider_def
      UniversalProvider_def split: sum.splits if_splits)

text \<open>
  When the default name of the environment is not registered, \<open>initializeProviders\<close>
  leaves the first registered provider as the default.
\<close>

lemma initializeProviders_default_first:
  assumes "map_of (providers (initializeProviders e s))
             (str_or (REACT_APP_DEFAULT_PROVIDER e) ''anthropic'') = None"
  shows "defaultProvider (initializeProviders e s) =
           (case providers (initializeProviders e s) of [] \<Rightarrow> None | (k, p) # rest \<Rightarrow> Some k)"
proof -
  define d where "d = str_or (REACT_APP_DEFAULT_PROVIDER e) ''anthropic''"
  show ?thesis
    using assms unfolding d_def[symmetric]
    by (cases "truthy_str (REACT_APP_ANTHROPIC_API_KEY e)";
        cases "truthy_str (REACT_APP_OPENAI_API_KEY e)";
        cases "truthy_str (REACT_APP_GOOGLE_API_KEY e)")
       (simp_all add: initializeProviders_def Let_def register_def setDefaultProvider_def
          UniversalProvider_def d_def[symmetric] truthy_str_def split: if_splits)
qed

lemma ProviderManager_registered_under_name:
  assumes "name (LocalProvider w) = ''local''"
  shows "\<forall>(k, q) \<in> set (ProviderManager_initializeProviders cfg e w). name q = k"
  using assms
  by (auto simp: ProviderManager_initializeProviders_def Let_def manage_def AnthropicProvider_def
      OpenAIProvider_def GoogleProvider_def adapter.extend_def split: if_splits)

lemma getDefaultProvider_first_registered:
  assumes "map_of (m_providers pm) (str_or (REACT_APP_DEFAULT_PROVIDER (m_env pm)) ''anthropic'') = None"
  shows "getDefaultProvider pm = (case m_providers pm of [] \<Rightarrow> None | (k, p) # rest \<Rightarrow> Some p)"
  using assms by (simp add: getDefaultProvider_def)

text \<open>
  C3. Claim: a provider name that is not registered, requested in the options or as the
  default provider, fails with the not-found error, and no other provider is ever
  substituted. For the default provider of the manager this is false: with only OpenAI
  enabled and no default named in the environment, the default name \<open>anthropic\<close> is
  not registered, \<open>getDefaultProvider\<close> returns the OpenAI provider, and \<open>complete\<close>
  succeeds on it.
\<close>

theorem unregistered_default_is_substituted:
  "map_of (m_providers
      (ProviderManager (example_config False True ''default'' [''anthropic'', ''openai''] JUndefined)
         (example_env None None) (vendors_up [''openai''])))
     (str_or (REACT_APP_DEFAULT_PROVIDER (example_env None None)) ''anthropic'') = None \<and>
   map_option name (getDefaultProvider
      (ProviderManager (example_config False True ''default'' [''anthropic'', ''openai''] JUndefined)
         (example_env None None) (vendors_up [''openai'']))) = Some ''openai'' \<and>
   ProviderManager_complete
      (ProviderManager (example_config False True ''default'' [''anthropic'', ''openai''] JUndefined)
         (example_env None None) (vendors_up [''openai'']))
      (hello JUndefined) \<lparr>provider = None, enableFallback = None\<rparr> [] =
     (Inr example_result,
      ProviderManager (example_config False True ''default'' [''anthropic'', ''openai''] JUndefined)
         (example_env None None) (vendors_up [''openai'']),
      [''openai''])"
  by (simp add: ProviderManager_complete_def trackCost_def trackCosts_def example_defs routing_defs)

text \<open>
  C3, amended. A name \<open>X\<close> that is not the empty string and is not registered,
  requested in the options of \<open>UniversalProvider.complete\<close>, fails with the not-found
  error for \<open>X\<close>: the log of adapter calls is unchanged, so no adapter was called and no
  fallback ran, whatever \<open>enableFallback\<close> is. A call that names no provider, on a
  registry with no default provider, fails in the same way. The manager's default
  lookup, by design, returns the first registered provider when the default name is
  not registered.
\<close>

theorem unregistered_provider_not_found:
  assumes "X \<noteq> []" and "map_of (providers u) X = None" and "provider opts = Some X"
  shows "complete u req opts tr = (Inl (ProviderNotFound (Some X)), tr) \<and>
         (defaultProvider u' = None \<longrightarrow>
            complete u' req (opts\<lparr>provider := None\<rparr>) tr = (Inl (ProviderNotFound None), tr)) \<and>
         (map_of (m_providers pm) (str_or (REACT_APP_DEFAULT_PROVIDER (m_env pm)) ''anthropic'') = None \<longrightarrow>
            getDefaultProvider pm = (case m_providers pm of [] \<Rightarrow> None | (k, p) # rest \<Rightarrow> Some p))"
proof (intro conjI impI)
  show "complete u req opts tr = (Inl (ProviderNotFound (Some X)), tr)"
    using assms by (subst complete.simps) (simp add: getProvider_def truthy_str_def)
  show "complete u' req (opts\<lparr>provider := None\<rparr>) tr = (Inl (ProviderNotFound None), tr)"
    if "defaultProvider u' = None"
    using that by (subst complete.simps) (simp add: getProvider_def truthy_str_def)
  show "getDefaultProvider pm = (case m_providers pm of [] \<Rightarrow> None | (k, p) # rest \<Rightarrow> Some p)"
    if "map_of (m_providers pm) (str_or (REACT_APP_DEFAULT_PROVIDER (m_env pm)) ''anthropic'') = None"
    using that by (rule getDefaultProvider_first_registered)
qed

theorem unregistered_provider_not_found_witness:
  "complete (initializeProviders (example_env (Some ''sk-a'') (Some ''sk-o'')) (sdks_up [''openai'']))
     (hello JUndefined) \<lparr>provider = Some ''mistral'', enableFallback = None\<rparr> [] =
     (Inl (ProviderNotFound (Some ''mistral'')), []) \<and>
   complete UniversalProvider (hello JUndefined) \<lparr>provider = None, enableFallback = None\<rparr> [] =
     (Inl (ProviderNotFound None), []) \<and>
   getDefaultProvider
     (ProviderManager (example_config False True ''default'' [''anthropic'', ''openai''] JUndefined)
        (example_env None None) (vendors_up [''openai''])) =
     Some (manage (vendors_up [''openai'']) (OpenAIProvider \<lparr>cfg_apiKey = None\<rparr>))"
proof -
  let ?u = "initializeProviders (example_env (Some ''sk-a'') (Some ''sk-o'')) (sdks_up [''openai''])"
  let ?pm = "ProviderManager (example_config False True ''default'' [''anthropic'', ''openai''] JUndefined)
        (example_env None None) (vendors_up [''openai''])"
  have h1: "''mistral'' \<noteq> []" by simp
  have h2: "map_of (providers ?u) ''mistral'' = None"
    by (simp add: universal_defs example_defs routing_defs Let_def)
  have h3: "provider \<lparr>provider = Some ''mistral'', enableFallback = None\<rparr> = Some ''mistral''" by simp
  have d: "defaultProvider UniversalProvider = None" by (simp add: UniversalProvider_def)
  have m: "map_of (m_providers ?pm) (str_or (REACT_APP_DEFAULT_PROVIDER (m_env ?pm)) ''anthropic'') = None"
    by (simp add: example_defs routing_defs)
  have ps: "m_providers ?pm = [(''openai'', manage (vendors_up [''openai'']) (OpenAIProvider \<lparr>cfg_apiKey = None\<rparr>))]"
    by (simp add: ProviderManager_def ProviderManager_initializeProviders_def is_enabled_def
        example_config_def example_env_def)
  from unregistered_provider_not_found[OF h1 h2 h3, of "hello JUndefined" "[]" UniversalProvider ?pm] d m
  show ?thesis by (simp add: ps)
qed

section \<open>The fallback bound\<close>




end
